theory Spec2Isabelle
  imports Main "HOL-Library.Multiset"
begin

section \<open>The "Create order" page controller (create-order-page.js)\<close>

subsection \<open>JavaScript values\<close>

text \<open>
  The values the controller stores, tests and passes on. Numbers are the integers and
  NaN: the controller only tests numbers for truthiness and compares a length with 0,
  and a non-integral or infinite double is truthy like any non-zero integer. Objects the
  controller treats as opaque (collaborators, jQuery objects, payload objects passed by
  reference) are references \<open>JRef\<close>.
\<close>

datatype jsval =
    JUndefined
  | JNull
  | JBool bool
  | JNum int
  | JNaN
  | JStr string
  | JRef nat

text \<open>The truthiness test of \<^verbatim>\<open>if (x)\<close>: ECMAScript's ToBoolean.\<close>

fun ToBoolean :: "jsval \<Rightarrow> bool" where
  "ToBoolean JUndefined = False"
| "ToBoolean JNull = False"
| "ToBoolean (JBool b) = b"
| "ToBoolean (JNum n) = (n \<noteq> 0)"
| "ToBoolean JNaN = False"
| "ToBoolean (JStr s) = (s \<noteq> [])"
| "ToBoolean (JRef r) = True"

fun is_boolean :: "jsval \<Rightarrow> bool" where
  "is_boolean (JBool b) = True"
| "is_boolean v = False"

subsection \<open>Address records and validateSelectedAddresses\<close>

text \<open>
  An address record carries the two flags the validator reads; a property that is
  missing from the object reads as \<open>JUndefined\<close>. The record is extensible: the other
  properties of an address are its \<open>more\<close> part.
\<close>

record address =
  delivery :: jsval
  invoice :: jsval

text \<open>
  \<^verbatim>\<open>for (const key in addresses)\<close> on an array of n address records visits the index
  keys 0, ..., n-1 in ascending order. The array is dense and its elements are objects,
  as a list of address records is: a hole would be skipped, and reading a flag of a
  null or undefined element would stop the function with a TypeError.
\<close>

definition for_in_keys :: "'a list \<Rightarrow> nat list" where
  "for_in_keys xs = [0..<length xs]"

text \<open>
  One pass of the loop body for one key, on the function's variables: the array
  \<open>addresses\<close> and the locals \<open>deliveryValid\<close> and \<open>invoiceValid\<close>.
  \<^verbatim>\<open>
    const address = addresses[key];
    if (address.delivery) { deliveryValid = true; }
    if (address.invoice)  { invoiceValid = true; }
  \<close>
\<close>

definition vsa_body :: "nat \<Rightarrow> 'a address_scheme list \<times> bool \<times> bool \<Rightarrow> 'a address_scheme list \<times> bool \<times> bool" where
  "vsa_body key st =
     (case st of (addresses, deliveryValid, invoiceValid) \<Rightarrow>
        let address = addresses ! key;
            deliveryValid = (if ToBoolean (delivery address) then True else deliveryValid);
            invoiceValid = (if ToBoolean (invoice address) then True else invoiceValid)
        in (addresses, deliveryValid, invoiceValid))"

fun vsa_loop :: "nat list \<Rightarrow> 'a address_scheme list \<times> bool \<times> bool \<Rightarrow> 'a address_scheme list \<times> bool \<times> bool" where
  "vsa_loop [] st = st"
| "vsa_loop (key # keys) st = vsa_loop keys (vsa_body key st)"

text \<open>The variables when the loop ends: both locals start false.\<close>

definition vsa_run :: "'a address_scheme list \<Rightarrow> 'a address_scheme list \<times> bool \<times> bool" where
  "vsa_run addresses = vsa_loop (for_in_keys addresses) (addresses, False, False)"

definition validateSelectedAddresses :: "'a address_scheme list \<Rightarrow> bool" where
  "validateSelectedAddresses addresses =
     (case vsa_run addresses of (addresses', deliveryValid, invoiceValid) \<Rightarrow>
        deliveryValid \<and> invoiceValid)"

subsection \<open>The two maps the page imports\<close>

text \<open>
  Modelled from the spec: create-order-map.js is not among the sources. The spec says the
  controller treats it as a fixed contract of selector names to UI regions; every name
  the page uses is one region here, and two names are two regions.
\<close>

datatype selector =
    orderCreationContainer | customerSearchInput | chooseCustomerBtn | useCartBtn
  | useOrderBtn | productSearch | cartRuleSearchInput | foundCartRuleListItem
  | cartRuleDeleteBtn | deliveryOptionSelect | freeShippingSwitch | addToCartButton
  | cartCurrencySelect | cartLanguageSelect | sendProcessOrderEmailBtn
  | listedProductUnitPriceInput | listedProductQtyInput | addressSelect
  | productRemoveBtn | cartBlock | deliveryAddressSelect | invoiceAddressSelect

text \<open>
  Modelled from the spec: event-map.js is not among the sources. The spec lists the
  canonical cart lifecycle event names the page subscribes to; they are seven distinct
  names here.
\<close>

datatype bus_event =
    cartLoaded | cartAddressesChanged | cartDeliveryOptionChanged | cartFreeShippingSet
  | cartCurrencyChanged | cartCurrencyChangeFailed | cartLanguageChanged

subsection \<open>Payloads, events and effects\<close>

text \<open>
  The cart info snapshot an event delivers, with the properties the handlers read.
  \<open>addresses\<close> and \<open>products\<close> are arrays (the handlers take their \<open>length\<close>);
  products and the remaining properties are only passed on.
\<close>

record cartInfo =
  cartId :: jsval
  addresses :: "address list"
  shipping :: jsval
  products :: "jsval list"
  cartRules :: jsval
  currencyId :: jsval
  langId :: jsval

text \<open>
  The response of a failed currency change, as the failure handler reads it:
  \<^verbatim>\<open>response.responseJSON.message\<close>. The request object has a \<open>responseJSON\<close> only when
  the body of the response was JSON; otherwise the property is undefined (\<open>None\<close>).
\<close>

record response_body =
  message :: jsval

record response =
  responseJSON :: "response_body option"

datatype payload = CartInfo cartInfo | Response response

text \<open>
  A jQuery event as the listeners use it: the element it was delegated to (named by its
  selector) and that element's data attributes.
\<close>

record jq_event =
  currentTarget :: selector
  data_attrs :: "(string \<times> jsval) list"

text \<open>\<^verbatim>\<open>$(event.currentTarget).data(key)\<close>: an attribute that is not there reads as undefined.\<close>

definition jq_data :: "jq_event \<Rightarrow> string \<Rightarrow> jsval" where
  "jq_data event key = (case map_of (data_attrs event) key of Some v \<Rightarrow> v | None \<Rightarrow> JUndefined)"

text \<open>
  What the page does to the outside is recorded, in order and with the time: a method
  call on a collaborator object (receiver, method name, arguments), a jQuery call on a
  selector, \<^verbatim>\<open>event.preventDefault()\<close>, or an error a handler does not catch (by its name).
\<close>

datatype arg =
    V jsval
  | Arr_addresses "address list"
  | Arr "jsval list"
  | Obj "(string \<times> jsval) list"
  | Ev jq_event

datatype effect =
    Call jsval string "arg list"
  | Jq selector string "arg list"
  | PreventDefault
  | Uncaught string

subsection \<open>The page object and the world around it\<close>

text \<open>The properties of the page object \<^verbatim>\<open>this\<close>.\<close>

datatype field =
    this_cartId | this_customerId | this_timeoutId | this_container
  | this_cartProvider | this_customerManager | this_shippingRenderer
  | this_addressesRenderer | this_cartRulesRenderer | this_router | this_cartEditor
  | this_cartRuleManager | this_productManager | this_productRenderer
  | this_summaryRenderer | this_summaryManager

text \<open>
  The closures the page hands to \<^verbatim>\<open>setTimeout\<close>. The customer search closure keeps the
  event and reads the input when it runs; the other two keep the phrase read when the
  event was handled.
\<close>

datatype callback =
    customerSearch_cb jq_event
  | productSearch_cb jsval
  | cartRuleSearch_cb jsval

record timer =
  timer_id :: nat
  due :: nat
  fires :: callback

text \<open>
  The state the handlers run in: the page object (a property never assigned reads as
  undefined) with the list of the assignments \<^verbatim>\<open>this.f = v\<close> executed so far; the heap of
  payload objects the event bus delivers by reference, and the next free reference; the
  values of the form elements; the clock, the pending timers and the next timer id; the
  recorded effects. The collaborators, jQuery and the document are not in the sources,
  so what an effect does to the form values (a renderer rebuilds them; what a select
  holds after \<^verbatim>\<open>val(v)\<close> depends on its options) and what
  \<^verbatim>\<open>customerManager.selectCustomer\<close> returns are parameters of the world. The payload
  objects in the heap are written by the page's own code only, if at all.
\<close>

record world =
  page :: "field \<Rightarrow> jsval"
  assigned :: "field list"
  heap :: "nat \<Rightarrow> payload option"
  nextRef :: nat
  dom_value :: "selector \<Rightarrow> jsval"
  clock :: nat
  nextTimer :: nat
  timers :: "timer list"
  trace :: "(nat \<times> effect) list"
  collab_dom :: "effect \<Rightarrow> (selector \<Rightarrow> jsval) \<Rightarrow> (selector \<Rightarrow> jsval)"
  collab_result :: "effect \<Rightarrow> jsval"

text \<open>\<^verbatim>\<open>this.f = v\<close>\<close>

definition assign :: "field \<Rightarrow> jsval \<Rightarrow> world \<Rightarrow> world" where
  "assign f v w = w\<lparr>page := (page w)(f := v), assigned := assigned w @ [f]\<rparr>"

text \<open>\<^verbatim>\<open>this.f = new C()\<close> and \<^verbatim>\<open>this.$container = $(...)\<close>: a fresh object.\<close>

definition assign_new :: "field \<Rightarrow> world \<Rightarrow> world" where
  "assign_new f w = assign f (JRef (nextRef w)) (w\<lparr>nextRef := Suc (nextRef w)\<rparr>)"

text \<open>A method call on a collaborator: recorded, and the form values change as the collaborator changes them.\<close>

definition call :: "jsval \<Rightarrow> string \<Rightarrow> arg list \<Rightarrow> world \<Rightarrow> world" where
  "call receiver method args w =
     w\<lparr>trace := trace w @ [(clock w, Call receiver method args)],
       dom_value := collab_dom w (Call receiver method args) (dom_value w)\<rparr>"

text \<open>\<^verbatim>\<open>$(selector).val()\<close> and \<^verbatim>\<open>element.value\<close> read a form value.\<close>

definition jq_val :: "selector \<Rightarrow> world \<Rightarrow> jsval" where
  "jq_val sel w = dom_value w sel"

text \<open>
  \<^verbatim>\<open>$(selector).val(v)\<close> asks the element to take the value v. What the element holds
  afterwards is not v itself: a select holds the string of v when one of its options has
  that value, and has no selection (its value reads null) when none has. So the new value
  is what the world's parameter gives for this call; the other elements keep theirs.
\<close>

definition jq_set_val :: "selector \<Rightarrow> jsval \<Rightarrow> world \<Rightarrow> world" where
  "jq_set_val sel v w =
     w\<lparr>trace := trace w @ [(clock w, Jq sel ''val'' [V v])],
       dom_value := (dom_value w)(sel := collab_dom w (Jq sel ''val'' [V v]) (dom_value w) sel)\<rparr>"

text \<open>
  Other jQuery calls (\<^verbatim>\<open>removeClass\<close>, \<^verbatim>\<open>blur\<close>), \<^verbatim>\<open>preventDefault\<close> and an error that
  leaves a handler uncaught are recorded.
\<close>

definition jq_call :: "selector \<Rightarrow> string \<Rightarrow> arg list \<Rightarrow> world \<Rightarrow> world" where
  "jq_call sel method args w = w\<lparr>trace := trace w @ [(clock w, Jq sel method args)]\<rparr>"

definition preventDefault :: "world \<Rightarrow> world" where
  "preventDefault w = w\<lparr>trace := trace w @ [(clock w, PreventDefault)]\<rparr>"

definition uncaught :: "string \<Rightarrow> world \<Rightarrow> world" where
  "uncaught name w = w\<lparr>trace := trace w @ [(clock w, Uncaught name)]\<rparr>"

text \<open>
  \<^verbatim>\<open>setTimeout(cb, delay)\<close> queues the closure and returns a fresh timer id;
  \<^verbatim>\<open>clearTimeout(h)\<close> drops the pending timer whose id is the number h, and does nothing
  for a handle that is not a number (the page's handle is undefined until the first
  search).
\<close>

definition setTimeout :: "callback \<Rightarrow> nat \<Rightarrow> world \<Rightarrow> jsval \<times> world" where
  "setTimeout cb delay w =
     (JNum (int (nextTimer w)),
      w\<lparr>timers := timers w @ [\<lparr>timer_id = nextTimer w, due = clock w + delay, fires = cb\<rparr>],
        nextTimer := Suc (nextTimer w)\<rparr>)"

definition clearTimeout :: "jsval \<Rightarrow> world \<Rightarrow> world" where
  "clearTimeout h w =
     (case h of
        JNum n \<Rightarrow> w\<lparr>timers := filter (\<lambda>t. int (timer_id t) \<noteq> n) (timers w)\<rparr>
      | _ \<Rightarrow> w)"

subsection \<open>The listeners on the container\<close>

text \<open>
  \<^verbatim>\<open>_initCustomerSearch\<close>, \<^verbatim>\<open>_initProductSearch\<close> and \<^verbatim>\<open>_initCartRuleSearch\<close>: each clears
  the timer named by \<^verbatim>\<open>this.timeoutId\<close> and stores the id of a new timer of 300 there.
\<close>

definition initCustomerSearch :: "jq_event \<Rightarrow> world \<Rightarrow> world" where
  "initCustomerSearch event w =
     (let w = clearTimeout (page w this_timeoutId) w;
          (handle, w) = setTimeout (customerSearch_cb event) 300 w
      in assign this_timeoutId handle w)"

definition initCustomerSelect :: "jq_event \<Rightarrow> world \<Rightarrow> world" where
  "initCustomerSelect event w =
     (let customerId = collab_result w (Call (page w this_customerManager) ''selectCustomer'' [Ev event]);
          w = call (page w this_customerManager) ''selectCustomer'' [Ev event] w;
          w = assign this_customerId customerId w
      in call (page w this_cartProvider) ''loadEmptyCart'' [V customerId] w)"

definition initCartSelect :: "jq_event \<Rightarrow> world \<Rightarrow> world" where
  "initCartSelect event w =
     (let cart_id = jq_data event ''cart-id''
      in call (page w this_cartProvider) ''getCart'' [V cart_id] w)"

definition initDuplicateOrderCart :: "jq_event \<Rightarrow> world \<Rightarrow> world" where
  "initDuplicateOrderCart event w =
     (let orderId = jq_data event ''order-id''
      in call (page w this_cartProvider) ''duplicateOrderCart'' [V orderId] w)"

definition initCartRuleSearch :: "jq_event \<Rightarrow> world \<Rightarrow> world" where
  "initCartRuleSearch event w =
     (let searchPhrase = jq_val (currentTarget event) w;
          w = clearTimeout (page w this_timeoutId) w;
          (handle, w) = setTimeout (cartRuleSearch_cb searchPhrase) 300 w
      in assign this_timeoutId handle w)"

text \<open>
  The two listeners \<^verbatim>\<open>_addCartRuleToCart\<close> binds, on mousedown and on click. The click
  listener's \<^verbatim>\<open>$(cartRuleSearchInput).blur()\<close> fires the input's blur event at once, and
  that runs the blur listener \<^verbatim>\<open>_initListeners\<close> bound for the input:
  \<^verbatim>\<open>this.cartRuleManager.stopSearching()\<close>.
\<close>

definition stopSearching :: "world \<Rightarrow> world" where
  "stopSearching w = call (page w this_cartRuleManager) ''stopSearching'' [] w"

definition addCartRuleToCart_mousedown :: "jq_event \<Rightarrow> world \<Rightarrow> world" where
  "addCartRuleToCart_mousedown event w =
     (let w = preventDefault w;
          cartRuleId = jq_data event ''cart-rule-id''
      in call (page w this_cartRuleManager) ''addCartRuleToCart'' [V cartRuleId, V (page w this_cartId)] w)"

definition addCartRuleToCart_click :: "jq_event \<Rightarrow> world \<Rightarrow> world" where
  "addCartRuleToCart_click event w =
     (let w = jq_call cartRuleSearchInput ''blur'' [] w
      in stopSearching w)"

definition removeCartRuleFromCart :: "jq_event \<Rightarrow> world \<Rightarrow> world" where
  "removeCartRuleFromCart event w =
     call (page w this_cartRuleManager) ''removeCartRuleFromCart''
       [V (jq_data event ''cart-rule-id''), V (page w this_cartId)] w"

definition initProductSearch :: "jq_event \<Rightarrow> world \<Rightarrow> world" where
  "initProductSearch event w =
     (let searchPhrase = jq_val (currentTarget event) w;
          w = clearTimeout (page w this_timeoutId) w;
          (handle, w) = setTimeout (productSearch_cb searchPhrase) 300 w
      in assign this_timeoutId handle w)"

definition initProductRemoveFromCart :: "jq_event \<Rightarrow> world \<Rightarrow> world" where
  "initProductRemoveFromCart event w =
     (let product = [(''productId'', jq_data event ''product-id''),
                     (''attributeId'', jq_data event ''attribute-id''),
                     (''customizationId'', jq_data event ''customization-id'')]
      in call (page w this_productManager) ''removeProductFromCart''
           [V (page w this_cartId), Obj product] w)"

definition initProductChangePrice :: "jq_event \<Rightarrow> world \<Rightarrow> world" where
  "initProductChangePrice event w =
     (let product = [(''productId'', jq_data event ''product-id''),
                     (''attributeId'', jq_data event ''attribute-id''),
                     (''customizationId'', jq_data event ''customization-id''),
                     (''price'', jq_val (currentTarget event) w)]
      in call (page w this_productManager) ''changeProductPrice''
           [V (page w this_cartId), V (page w this_customerId), Obj product] w)"

definition initProductChangeQty :: "jq_event \<Rightarrow> world \<Rightarrow> world" where
  "initProductChangeQty event w =
     (let product = [(''productId'', jq_data event ''product-id''),
                     (''attributeId'', jq_data event ''attribute-id''),
                     (''customizationId'', jq_data event ''customization-id''),
                     (''newQty'', jq_val (currentTarget event) w)]
      in call (page w this_productManager) ''changeProductQty''
           [V (page w this_cartId), Obj product] w)"

definition preselectCartCurrency :: "jsval \<Rightarrow> world \<Rightarrow> world" where
  "preselectCartCurrency currency_id w = jq_set_val cartCurrencySelect currency_id w"

definition preselectCartLanguage :: "jsval \<Rightarrow> world \<Rightarrow> world" where
  "preselectCartLanguage lang_id w = jq_set_val cartLanguageSelect lang_id w"

definition changeCartAddresses :: "world \<Rightarrow> world" where
  "changeCartAddresses w =
     (let address_ids = [(''deliveryAddressId'', jq_val deliveryAddressSelect w),
                         (''invoiceAddressId'', jq_val invoiceAddressSelect w)]
      in call (page w this_cartEditor) ''changeCartAddresses''
           [V (page w this_cartId), Obj address_ids] w)"

text \<open>
  The listeners, one name for each function \<^verbatim>\<open>$container.on\<close> is given, and what each
  runs. The arrow functions written in place in \<^verbatim>\<open>_listenForCartEdit\<close> and
  \<^verbatim>\<open>_initListeners\<close> are named after the collaborator method they call.
\<close>

datatype listener =
    L_initCustomerSearch | L_initCustomerSelect | L_initCartSelect
  | L_initDuplicateOrderCart | L_initProductSearch | L_initCartRuleSearch
  | L_stopSearching | L_addCartRuleToCart_mousedown | L_addCartRuleToCart_click
  | L_removeCartRuleFromCart | L_changeDeliveryOption | L_setFreeShipping
  | L_addProductToCart | L_changeCartCurrency | L_changeCartLanguage
  | L_sendProcessOrderEmail | L_initProductChangePrice | L_initProductChangeQty
  | L_changeCartAddresses | L_initProductRemoveFromCart

fun run_listener :: "listener \<Rightarrow> jq_event \<Rightarrow> world \<Rightarrow> world" where
  "run_listener L_initCustomerSearch e w = initCustomerSearch e w"
| "run_listener L_initCustomerSelect e w = initCustomerSelect e w"
| "run_listener L_initCartSelect e w = initCartSelect e w"
| "run_listener L_initDuplicateOrderCart e w = initDuplicateOrderCart e w"
| "run_listener L_initProductSearch e w = initProductSearch e w"
| "run_listener L_initCartRuleSearch e w = initCartRuleSearch e w"
| "run_listener L_stopSearching e w = stopSearching w"
| "run_listener L_addCartRuleToCart_mousedown e w = addCartRuleToCart_mousedown e w"
| "run_listener L_addCartRuleToCart_click e w = addCartRuleToCart_click e w"
| "run_listener L_removeCartRuleFromCart e w = removeCartRuleFromCart e w"
| "run_listener L_changeDeliveryOption e w =
     call (page w this_cartEditor) ''changeDeliveryOption''
       [V (page w this_cartId), V (jq_val (currentTarget e) w)] w"
| "run_listener L_setFreeShipping e w =
     call (page w this_cartEditor) ''setFreeShipping''
       [V (page w this_cartId), V (jq_val (currentTarget e) w)] w"
| "run_listener L_addProductToCart e w =
     call (page w this_productManager) ''addProductToCart'' [V (page w this_cartId)] w"
| "run_listener L_changeCartCurrency e w =
     call (page w this_cartEditor) ''changeCartCurrency''
       [V (page w this_cartId), V (jq_val (currentTarget e) w)] w"
| "run_listener L_changeCartLanguage e w =
     call (page w this_cartEditor) ''changeCartLanguage''
       [V (page w this_cartId), V (jq_val (currentTarget e) w)] w"
| "run_listener L_sendProcessOrderEmail e w =
     call (page w this_summaryManager) ''sendProcessOrderEmail'' [V (page w this_cartId)] w"
| "run_listener L_initProductChangePrice e w = initProductChangePrice e w"
| "run_listener L_initProductChangeQty e w = initProductChangeQty e w"
| "run_listener L_changeCartAddresses e w = changeCartAddresses w"
| "run_listener L_initProductRemoveFromCart e w = initProductRemoveFromCart e w"

subsection \<open>The subscribers on the event bus\<close>

text \<open>
  Each subscriber is given the reference the bus delivers and the cart info (or response)
  it reads there. Passing \<^verbatim>\<open>cartInfo\<close> itself to a collaborator passes the reference.
\<close>

definition renderCartInfo :: "nat \<Rightarrow> cartInfo \<Rightarrow> world \<Rightarrow> world" where
  "renderCartInfo ref cartInfo w =
     (let w = call (page w this_addressesRenderer) ''render'' [Arr_addresses (addresses cartInfo)] w;
          w = call (page w this_cartRulesRenderer) ''renderCartRulesBlock''
                [V (cartRules cartInfo), V (JBool (length (products cartInfo) = 0))] w;
          w = call (page w this_shippingRenderer) ''render''
                [V (shipping cartInfo), V (JBool (length (products cartInfo) = 0))] w;
          w = call (page w this_productRenderer) ''renderList'' [Arr (products cartInfo)] w;
          w = call (page w this_summaryRenderer) ''render'' [V (JRef ref)] w;
          w = preselectCartCurrency (currencyId cartInfo) w;
          w = preselectCartLanguage (langId cartInfo) w
      in jq_call cartBlock ''removeClass'' [V (JStr ''d-none'')] w)"

definition onCartLoaded_handler :: "nat \<Rightarrow> cartInfo \<Rightarrow> world \<Rightarrow> world" where
  "onCartLoaded_handler ref cartInfo w =
     (let w = assign this_cartId (cartId cartInfo) w;
          w = renderCartInfo ref cartInfo w;
          w = (if length (addresses cartInfo) \<noteq> 0
                  \<and> \<not> validateSelectedAddresses (addresses cartInfo)
               then changeCartAddresses w else w);
          w = call (page w this_customerManager) ''loadCustomerCarts'' [V (page w this_cartId)] w
      in call (page w this_customerManager) ''loadCustomerOrders'' [] w)"

definition onCartAddressesChanged_handler :: "nat \<Rightarrow> cartInfo \<Rightarrow> world \<Rightarrow> world" where
  "onCartAddressesChanged_handler ref cartInfo w =
     (let w = call (page w this_addressesRenderer) ''render'' [Arr_addresses (addresses cartInfo)] w;
          w = call (page w this_shippingRenderer) ''render''
                [V (shipping cartInfo), V (JBool (length (products cartInfo) = 0))] w
      in call (page w this_summaryRenderer) ''render'' [V (JRef ref)] w)"

definition onDeliveryOptionChanged_handler :: "nat \<Rightarrow> cartInfo \<Rightarrow> world \<Rightarrow> world" where
  "onDeliveryOptionChanged_handler ref cartInfo w =
     (let w = call (page w this_shippingRenderer) ''render''
                [V (shipping cartInfo), V (JBool (length (products cartInfo) = 0))] w
      in call (page w this_summaryRenderer) ''render'' [V (JRef ref)] w)"

definition onFreeShippingChanged_handler :: "nat \<Rightarrow> cartInfo \<Rightarrow> world \<Rightarrow> world" where
  "onFreeShippingChanged_handler ref cartInfo w =
     (let w = call (page w this_cartRulesRenderer) ''renderCartRulesBlock''
                [V (cartRules cartInfo), V (JBool (length (products cartInfo) = 0))] w;
          w = call (page w this_shippingRenderer) ''render''
                [V (shipping cartInfo), V (JBool (length (products cartInfo) = 0))] w
      in call (page w this_summaryRenderer) ''render'' [V (JRef ref)] w)"

definition onCartLanguageChanged_handler :: "nat \<Rightarrow> cartInfo \<Rightarrow> world \<Rightarrow> world" where
  "onCartLanguageChanged_handler ref cartInfo w = preselectCartLanguage (langId cartInfo) w"

text \<open>\<^verbatim>\<open>_onCartCurrencyChanged\<close> subscribes two handlers: on success and on failure.\<close>

definition onCartCurrencyChanged_success :: "nat \<Rightarrow> cartInfo \<Rightarrow> world \<Rightarrow> world" where
  "onCartCurrencyChanged_success ref cartInfo w =
     (let w = call (page w this_productRenderer) ''cleanCartBlockAlerts'' [] w
      in preselectCartCurrency (currencyId cartInfo) w)"

text \<open>
  The failure handler reads \<^verbatim>\<open>response.responseJSON.message\<close> for the argument of its one
  call: when \<open>responseJSON\<close> is undefined that read throws a TypeError, which the handler
  does not catch, and the call is not made.
\<close>

definition onCartCurrencyChanged_failure :: "nat \<Rightarrow> response \<Rightarrow> world \<Rightarrow> world" where
  "onCartCurrencyChanged_failure ref response w =
     (case responseJSON response of
        None \<Rightarrow> uncaught ''TypeError'' w
      | Some body \<Rightarrow>
          call (page w this_productRenderer) ''renderCartBlockErrorAlert'' [V (message body)] w)"

datatype subscriber =
    S_onCartLoaded | S_onCartAddressesChanged | S_onDeliveryOptionChanged
  | S_onFreeShippingChanged | S_onCartLanguageChanged
  | S_onCartCurrencyChanged_success | S_onCartCurrencyChanged_failure

text \<open>
  A subscriber runs on the object the delivered reference points to. The six cart
  subscribers read a cart info and the failure subscriber a response; an object of the
  other shape lacks the properties the handler dereferences (the handler would stop
  with a TypeError) and is outside this model: the world is then left as it is.
\<close>

fun run_subscriber :: "subscriber \<Rightarrow> nat \<Rightarrow> payload option \<Rightarrow> world \<Rightarrow> world" where
  "run_subscriber S_onCartLoaded ref (Some (CartInfo c)) w = onCartLoaded_handler ref c w"
| "run_subscriber S_onCartAddressesChanged ref (Some (CartInfo c)) w = onCartAddressesChanged_handler ref c w"
| "run_subscriber S_onDeliveryOptionChanged ref (Some (CartInfo c)) w = onDeliveryOptionChanged_handler ref c w"
| "run_subscriber S_onFreeShippingChanged ref (Some (CartInfo c)) w = onFreeShippingChanged_handler ref c w"
| "run_subscriber S_onCartLanguageChanged ref (Some (CartInfo c)) w = onCartLanguageChanged_handler ref c w"
| "run_subscriber S_onCartCurrencyChanged_success ref (Some (CartInfo c)) w = onCartCurrencyChanged_success ref c w"
| "run_subscriber S_onCartCurrencyChanged_failure ref (Some (Response r)) w = onCartCurrencyChanged_failure ref r w"
| "run_subscriber s ref p w = w"

subsection \<open>Registration: \<^verbatim>\<open>_initListeners\<close>\<close>

datatype dom_type = Input | Click | Blur | Change | Mousedown

text \<open>
  What \<^verbatim>\<open>$container.on(type, selector, f)\<close> and \<^verbatim>\<open>EventEmitter.on(name, f)\<close> build: both
  keep the handlers in registration order and allow several for one key.
\<close>

record registry =
  delegated :: "(dom_type \<times> selector \<times> listener) list"
  subscribed :: "(bus_event \<times> subscriber) list"

definition container_on :: "dom_type \<Rightarrow> selector \<Rightarrow> listener \<Rightarrow> registry \<Rightarrow> registry" where
  "container_on ty sel l reg = reg\<lparr>delegated := delegated reg @ [(ty, sel, l)]\<rparr>"

definition EventEmitter_on :: "bus_event \<Rightarrow> subscriber \<Rightarrow> registry \<Rightarrow> registry" where
  "EventEmitter_on name s reg = reg\<lparr>subscribed := subscribed reg @ [(name, s)]\<rparr>"

definition onCartLoaded :: "registry \<Rightarrow> registry" where
  "onCartLoaded reg = EventEmitter_on cartLoaded S_onCartLoaded reg"

definition onCartAddressesChanged :: "registry \<Rightarrow> registry" where
  "onCartAddressesChanged reg = EventEmitter_on cartAddressesChanged S_onCartAddressesChanged reg"

definition onDeliveryOptionChanged :: "registry \<Rightarrow> registry" where
  "onDeliveryOptionChanged reg = EventEmitter_on cartDeliveryOptionChanged S_onDeliveryOptionChanged reg"

definition onFreeShippingChanged :: "registry \<Rightarrow> registry" where
  "onFreeShippingChanged reg = EventEmitter_on cartFreeShippingSet S_onFreeShippingChanged reg"

definition onCartLanguageChanged :: "registry \<Rightarrow> registry" where
  "onCartLanguageChanged reg = EventEmitter_on cartLanguageChanged S_onCartLanguageChanged reg"

definition onCartCurrencyChanged :: "registry \<Rightarrow> registry" where
  "onCartCurrencyChanged reg =
     (let reg = EventEmitter_on cartCurrencyChanged S_onCartCurrencyChanged_success reg
      in EventEmitter_on cartCurrencyChangeFailed S_onCartCurrencyChanged_failure reg)"

definition addCartRuleToCart :: "registry \<Rightarrow> registry" where
  "addCartRuleToCart reg =
     (let reg = container_on Mousedown foundCartRuleListItem L_addCartRuleToCart_mousedown reg
      in container_on Click foundCartRuleListItem L_addCartRuleToCart_click reg)"

definition removeCartRuleFromCart_bind :: "registry \<Rightarrow> registry" where
  "removeCartRuleFromCart_bind reg = container_on Click cartRuleDeleteBtn L_removeCartRuleFromCart reg"

definition listenForCartEdit :: "registry \<Rightarrow> registry" where
  "listenForCartEdit reg =
     (let reg = onCartAddressesChanged reg;
          reg = onDeliveryOptionChanged reg;
          reg = onFreeShippingChanged reg;
          reg = addCartRuleToCart reg;
          reg = removeCartRuleFromCart_bind reg;
          reg = onCartCurrencyChanged reg;
          reg = onCartLanguageChanged reg;
          reg = container_on Change deliveryOptionSelect L_changeDeliveryOption reg;
          reg = container_on Change freeShippingSwitch L_setFreeShipping reg;
          reg = container_on Click addToCartButton L_addProductToCart reg;
          reg = container_on Change cartCurrencySelect L_changeCartCurrency reg;
          reg = container_on Change cartLanguageSelect L_changeCartLanguage reg;
          reg = container_on Click sendProcessOrderEmailBtn L_sendProcessOrderEmail reg;
          reg = container_on Change listedProductUnitPriceInput L_initProductChangePrice reg;
          reg = container_on Change listedProductQtyInput L_initProductChangeQty reg;
          reg = container_on Change addressSelect L_changeCartAddresses reg
      in container_on Click productRemoveBtn L_initProductRemoveFromCart reg)"

definition initListeners :: "registry \<Rightarrow> registry" where
  "initListeners reg =
     (let reg = container_on Input customerSearchInput L_initCustomerSearch reg;
          reg = container_on Click chooseCustomerBtn L_initCustomerSelect reg;
          reg = container_on Click useCartBtn L_initCartSelect reg;
          reg = container_on Click useOrderBtn L_initDuplicateOrderCart reg;
          reg = container_on Input productSearch L_initProductSearch reg;
          reg = container_on Input cartRuleSearchInput L_initCartRuleSearch reg;
          reg = container_on Blur cartRuleSearchInput L_stopSearching reg;
          reg = listenForCartEdit reg
      in onCartLoaded reg)"

text \<open>The handlers of the one page: what \<^verbatim>\<open>_initListeners\<close> registers, starting from none.\<close>

definition page_registry :: registry where
  "page_registry = initListeners \<lparr>delegated = [], subscribed = []\<rparr>"

text \<open>
  The constructor: the assignments in the order of the source. Its last statement,
  \<^verbatim>\<open>this._initListeners()\<close>, assigns nothing; what it registers is \<open>page_registry\<close>.
\<close>

definition constructor :: "world \<Rightarrow> world" where
  "constructor w =
     (let w = assign this_cartId JNull w;
          w = assign this_customerId JNull w;
          w = assign_new this_container w;
          w = assign_new this_cartProvider w;
          w = assign_new this_customerManager w;
          w = assign_new this_shippingRenderer w;
          w = assign_new this_addressesRenderer w;
          w = assign_new this_cartRulesRenderer w;
          w = assign_new this_router w;
          w = assign_new this_cartEditor w;
          w = assign_new this_cartRuleManager w;
          w = assign_new this_productManager w;
          w = assign_new this_productRenderer w;
          w = assign_new this_summaryRenderer w
      in assign_new this_summaryManager w)"

subsection \<open>Dispatch: DOM events, bus events and the timers\<close>

text \<open>A DOM event of a type on an element runs the listeners bound to that type and selector, in registration order.\<close>

definition listeners_for :: "dom_type \<Rightarrow> selector \<Rightarrow> listener list" where
  "listeners_for ty sel =
     map (\<lambda>(ty', sel', l). l) (filter (\<lambda>(ty', sel', l). ty' = ty \<and> sel' = sel) (delegated page_registry))"

definition trigger :: "dom_type \<Rightarrow> jq_event \<Rightarrow> world \<Rightarrow> world" where
  "trigger ty event w = fold (\<lambda>l. run_listener l event) (listeners_for ty (currentTarget event)) w"

text \<open>\<^verbatim>\<open>EventEmitter.emit(name, object)\<close> runs the subscribers of the name, in registration order, on the object.\<close>

definition subscribers_for :: "bus_event \<Rightarrow> subscriber list" where
  "subscribers_for name =
     map (\<lambda>(name', s). s) (filter (\<lambda>(name', s). name' = name) (subscribed page_registry))"

definition emit :: "bus_event \<Rightarrow> nat \<Rightarrow> world \<Rightarrow> world" where
  "emit name ref w = fold (\<lambda>s w. run_subscriber s ref (heap w ref) w) (subscribers_for name) w"

text \<open>Publishing a payload: the object is new in the heap and the bus delivers its reference.\<close>

definition publish :: "bus_event \<Rightarrow> payload \<Rightarrow> world \<Rightarrow> world" where
  "publish name p w =
     emit name (nextRef w) (w\<lparr>heap := (heap w)(nextRef w := Some p), nextRef := Suc (nextRef w)\<rparr>)"

text \<open>What a timer runs when it fires.\<close>

fun run_callback :: "callback \<Rightarrow> world \<Rightarrow> world" where
  "run_callback (customerSearch_cb event) w =
     call (page w this_customerManager) ''search'' [V (jq_val (currentTarget event) w)] w"
| "run_callback (productSearch_cb searchPhrase) w =
     call (page w this_productManager) ''search'' [V searchPhrase] w"
| "run_callback (cartRuleSearch_cb searchPhrase) w =
     call (page w this_cartRuleManager) ''search'' [V searchPhrase] w"

text \<open>
  The event loop lets time pass until t: the pending timers due by then fire, earliest
  first (and in the order they were set when due together), each at its due time; none
  of the page's closures sets or clears a timer.
\<close>

definition fire :: "timer \<Rightarrow> world \<Rightarrow> world" where
  "fire tm w = run_callback (fires tm) (w\<lparr>clock := max (clock w) (due tm)\<rparr>)"

definition advance_to :: "nat \<Rightarrow> world \<Rightarrow> world" where
  "advance_to t w =
     (let ready = sort_key due (filter (\<lambda>tm. due tm \<le> t) (timers w));
          w = w\<lparr>timers := filter (\<lambda>tm. \<not> due tm \<le> t) (timers w)\<rparr>;
          w = fold fire ready w
      in w\<lparr>clock := max (clock w) t\<rparr>)"

text \<open>
  What can happen to the page: the user edits a form element (its value changes, then
  its input event is delivered), another DOM event is delivered, a bus event is published,
  or time passes. A script is a list of such stimuli, each with the time it happens at.
\<close>

datatype stimulus =
    Typed selector jsval
  | Dom dom_type jq_event
  | Published bus_event payload

fun step :: "stimulus \<Rightarrow> world \<Rightarrow> world" where
  "step (Typed sel v) w =
     trigger Input \<lparr>currentTarget = sel, data_attrs = []\<rparr> (w\<lparr>dom_value := (dom_value w)(sel := v)\<rparr>)"
| "step (Dom ty event) w = trigger ty event w"
| "step (Published name p) w = publish name p w"

definition occur :: "nat \<times> stimulus \<Rightarrow> world \<Rightarrow> world" where
  "occur ts w = step (snd ts) (advance_to (fst ts) w)"

definition run_script :: "(nat \<times> stimulus) list \<Rightarrow> world \<Rightarrow> world" where
  "run_script script w = fold occur script w"

text \<open>
  The world a page is constructed in at time 0: no object yet, nothing pending, nothing
  recorded; the form values and the collaborators' behaviour are whatever they are.
\<close>

definition blank :: "(selector \<Rightarrow> jsval) \<Rightarrow> (effect \<Rightarrow> (selector \<Rightarrow> jsval) \<Rightarrow> (selector \<Rightarrow> jsval)) \<Rightarrow> (effect \<Rightarrow> jsval) \<Rightarrow> world" where
  "blank form cd cr =
     \<lparr>page = (\<lambda>f. JUndefined), assigned = [], heap = (\<lambda>r. None), nextRef = 0,
      dom_value = form, clock = 0, nextTimer = 1, timers = [], trace = [],
      collab_dom = cd, collab_result = cr\<rparr>"

definition boot :: "(selector \<Rightarrow> jsval) \<Rightarrow> (effect \<Rightarrow> (selector \<Rightarrow> jsval) \<Rightarrow> (selector \<Rightarrow> jsval)) \<Rightarrow> (effect \<Rightarrow> jsval) \<Rightarrow> world" where
  "boot form cd cr = constructor (blank form cd cr)"

text \<open>Every handler of the page, with what it is run on.\<close>

datatype handler =
    Listener listener jq_event
  | Subscriber subscriber nat
  | Timeout callback

fun run_handler :: "handler \<Rightarrow> world \<Rightarrow> world" where
  "run_handler (Listener l event) w = run_listener l event w"
| "run_handler (Subscriber s ref) w = run_subscriber s ref (heap w ref) w"
| "run_handler (Timeout cb) w = run_callback cb w"

text \<open>The properties of the page other than the cart id, the customer id and the timer handle.\<close>

definition collaborator_fields :: "field list" where
  "collaborator_fields =
     [this_container, this_cartProvider, this_customerManager, this_shippingRenderer,
      this_addressesRenderer, this_cartRulesRenderer, this_router, this_cartEditor,
      this_cartRuleManager, this_productManager, this_productRenderer,
      this_summaryRenderer, this_summaryManager]"

text \<open>The assignments to the page and the effects recorded while f runs on w.\<close>

definition assigned_by :: "(world \<Rightarrow> world) \<Rightarrow> world \<Rightarrow> field list" where
  "assigned_by f w = drop (length (assigned w)) (assigned (f w))"

definition recorded_by :: "(world \<Rightarrow> world) \<Rightarrow> world \<Rightarrow> (nat \<times> effect) list" where
  "recorded_by f w = drop (length (trace w)) (trace (f w))"

subsection \<open>Debounced search: the terms the properties are stated in\<close>

text \<open>
  The three inputs whose listener goes through the timer, the closure each listener
  hands to \<^verbatim>\<open>setTimeout\<close> for a value v of the input, and the collaborator whose
  \<^verbatim>\<open>search\<close> that closure calls.
\<close>

definition debounced :: "selector list" where
  "debounced = [customerSearchInput, productSearch, cartRuleSearchInput]"

fun search_closure :: "selector \<Rightarrow> jsval \<Rightarrow> callback" where
  "search_closure customerSearchInput v = customerSearch_cb \<lparr>currentTarget = customerSearchInput, data_attrs = []\<rparr>"
| "search_closure productSearch v = productSearch_cb v"
| "search_closure s v = cartRuleSearch_cb v"

fun search_manager :: "selector \<Rightarrow> field" where
  "search_manager customerSearchInput = this_customerManager"
| "search_manager productSearch = this_productManager"
| "search_manager s = this_cartRuleManager"

text \<open>
  A run of keystrokes (time, input, value), as a script; \<open>within_window t ks\<close> says that
  the keystrokes are on debounced inputs and each comes less than 300 after the one
  before it, the first less than 300 after t.
\<close>

definition keystrokes :: "(nat \<times> selector \<times> jsval) list \<Rightarrow> (nat \<times> stimulus) list" where
  "keystrokes ks = map (\<lambda>(t, s, v). (t, Typed s v)) ks"

fun within_window :: "nat \<Rightarrow> (nat \<times> selector \<times> jsval) list \<Rightarrow> bool" where
  "within_window t [] = True"
| "within_window t ((t', s, v) # ks) =
     (t \<le> t' \<and> t' < t + 300 \<and> s \<in> set debounced \<and> within_window t' ks)"

text \<open>
  The state between keystrokes: exactly one timer is pending, it is the one the page's
  handle names, and it will search for the value v of input s at t + 300.
\<close>

definition pending_search :: "world \<Rightarrow> nat \<Rightarrow> selector \<Rightarrow> jsval \<Rightarrow> bool" where
  "pending_search w t s v =
     (s \<in> set debounced \<and> clock w = t \<and> dom_value w s = v
      \<and> (\<exists>i. timers w = [\<lparr>timer_id = i, due = t + 300, fires = search_closure s v\<rparr>]
             \<and> page w this_timeoutId = JNum (int i)))"

text \<open>What keystrokes leave alone: the recorded effects and every property of the page but the handle.\<close>

definition same_outside :: "world \<Rightarrow> world \<Rightarrow> bool" where
  "same_outside w w' =
     (trace w' = trace w \<and> collab_dom w' = collab_dom w
      \<and> (\<forall>f. f \<noteq> this_timeoutId \<longrightarrow> page w' f = page w f))"

text \<open>The recorded calls of one method name.\<close>

fun is_call_of :: "string \<Rightarrow> nat \<times> effect \<Rightarrow> bool" where
  "is_call_of m (t, Call receiver m' args) = (m' = m)"
| "is_call_of m (t, e) = False"

definition calls_of :: "string \<Rightarrow> (nat \<times> effect) list \<Rightarrow> (nat \<times> effect) list" where
  "calls_of m tr = filter (is_call_of m) tr"

subsection \<open>The validator: what the loop computes\<close>

lemma vsa_loop_result:
  "vsa_loop keys (as, d, i) =
     (as, d \<or> (\<exists>k\<in>set keys. ToBoolean (delivery (as ! k))),
          i \<or> (\<exists>k\<in>set keys. ToBoolean (invoice (as ! k))))"
proof (induction keys arbitrary: d i)
  case Nil
  show ?case by simp
next
  case (Cons key keys)
  show ?case
    by (auto simp: vsa_body_def Let_def Cons.IH)
qed

lemma index_keys_cover:
  "(\<exists>k\<in>set (for_in_keys as). P (as ! k)) = (\<exists>a\<in>set as. P a)"
proof
  assume "\<exists>k\<in>set (for_in_keys as). P (as ! k)"
  then obtain k where "k < length as" "P (as ! k)"
    by (auto simp: for_in_keys_def)
  then show "\<exists>a\<in>set as. P a"
    using nth_mem by blast
next
  assume "\<exists>a\<in>set as. P a"
  then obtain k where "k < length as" "P (as ! k)"
    by (auto simp: in_set_conv_nth)
  then show "\<exists>k\<in>set (for_in_keys as). P (as ! k)"
    by (auto simp: for_in_keys_def)
qed

lemma vsa_run_result:
  "vsa_run as =
     (as, (\<exists>a\<in>set as. ToBoolean (delivery a)), (\<exists>a\<in>set as. ToBoolean (invoice a)))"
  by (simp add: vsa_run_def vsa_loop_result
      index_keys_cover [where P = "\<lambda>a. ToBoolean (delivery a)"]
      index_keys_cover [where P = "\<lambda>a. ToBoolean (invoice a)"])

lemma validateSelectedAddresses_exists:
  "validateSelectedAddresses as =
     ((\<exists>a\<in>set as. ToBoolean (delivery a)) \<and> (\<exists>b\<in>set as. ToBoolean (invoice b)))"
  by (simp add: validateSelectedAddresses_def vsa_run_result)

lemma boolean_truthy: "is_boolean v \<Longrightarrow> ToBoolean v \<Longrightarrow> v = JBool True"
  by (cases v) simp_all

text \<open>
  Claim C1. For every list of address records, validateSelectedAddresses returns true
  if and only if some record of the list has a truthy delivery flag and some record
  (possibly the same one) has a truthy invoice flag; so it is false as soon as one of
  the two roles is absent from the whole list, and false for the empty list.
\<close>

theorem validateSelectedAddresses_iff:
  "(validateSelectedAddresses as =
      ((\<exists>a\<in>set as. ToBoolean (delivery a)) \<and> (\<exists>b\<in>set as. ToBoolean (invoice b))))
   \<and> validateSelectedAddresses ([] :: 'a address_scheme list) = False"
  by (simp add: validateSelectedAddresses_exists)

text \<open>
  Claim C2. For every list of address records, whose delivery and invoice flags are
  booleans as the data model declares them: if validateSelectedAddresses returns true
  then at least one address in the list has delivery strictly equal to the boolean
  \<open>true\<close> and at least one address (the same or another) has invoice strictly equal to
  the boolean \<open>true\<close>.
\<close>

theorem validateSelectedAddresses_true_only_if:
  assumes bools: "\<forall>a\<in>set as. is_boolean (delivery a) \<and> is_boolean (invoice a)"
    and valid: "validateSelectedAddresses as"
  shows "(\<exists>a\<in>set as. delivery a = JBool True) \<and> (\<exists>b\<in>set as. invoice b = JBool True)"
proof -
  from valid obtain a b where a: "a \<in> set as" "ToBoolean (delivery a)"
    and b: "b \<in> set as" "ToBoolean (invoice b)"
    by (auto simp: validateSelectedAddresses_exists)
  from bools a have "delivery a = JBool True" by (simp add: boolean_truthy)
  moreover from bools b have "invoice b = JBool True" by (simp add: boolean_truthy)
  ultimately show ?thesis using a(1) b(1) by blast
qed

theorem validateSelectedAddresses_true_only_if_witness:
  "validateSelectedAddresses
     [\<lparr>delivery = JBool True, invoice = JBool False\<rparr>, \<lparr>delivery = JBool False, invoice = JBool True\<rparr>]
   \<and> list_all (\<lambda>a. is_boolean (delivery a) \<and> is_boolean (invoice a))
     [\<lparr>delivery = JBool True, invoice = JBool False\<rparr>, \<lparr>delivery = JBool False, invoice = JBool True\<rparr>]
   \<and> (\<exists>a\<in>set [\<lparr>delivery = JBool True, invoice = JBool False\<rparr>,
                \<lparr>delivery = JBool False, invoice = JBool True\<rparr>]. delivery a = JBool True)
   \<and> (\<exists>b\<in>set [\<lparr>delivery = JBool True, invoice = JBool False\<rparr>,
                \<lparr>delivery = JBool False, invoice = JBool True\<rparr>]. invoice b = JBool True)"
proof -
  have b: "\<forall>a\<in>set [\<lparr>delivery = JBool True, invoice = JBool False\<rparr>,
                    \<lparr>delivery = JBool False, invoice = JBool True\<rparr>].
             is_boolean (delivery a) \<and> is_boolean (invoice a)"
    by simp
  have v: "validateSelectedAddresses
     [\<lparr>delivery = JBool True, invoice = JBool False\<rparr>, \<lparr>delivery = JBool False, invoice = JBool True\<rparr>]"
    by (simp add: validateSelectedAddresses_def vsa_run_def for_in_keys_def vsa_body_def upt_rec)
  show ?thesis
    using v validateSelectedAddresses_true_only_if [OF b v] by simp
qed

text \<open>
  Claim C9. validateSelectedAddresses does not depend on the order of the list: on a
  permutation of the list (a list with the same records, each as often) it returns the
  same result. The loop writes only its two local flags: the array it was given is the
  same after the loop as before, for either list. The function is a static method that
  reads nothing but its argument, so there is no other state for it to change.
\<close>

theorem validateSelectedAddresses_order_independent:
  assumes "mset xs = mset ys"
  shows "validateSelectedAddresses xs = validateSelectedAddresses ys
       \<and> fst (vsa_run xs) = xs \<and> fst (vsa_run ys) = ys"
proof -
  from assms have "set xs = set ys" by (rule mset_eq_setD)
  then show ?thesis
    by (simp add: validateSelectedAddresses_exists vsa_run_result)
qed

theorem validateSelectedAddresses_order_independent_witness:
  "mset [\<lparr>delivery = JBool True, invoice = JBool False\<rparr>, \<lparr>delivery = JNull, invoice = JStr ''x''\<rparr>]
     = mset [\<lparr>delivery = JNull, invoice = JStr ''x''\<rparr>, \<lparr>delivery = JBool True, invoice = JBool False\<rparr>]
   \<and> validateSelectedAddresses
       [\<lparr>delivery = JBool True, invoice = JBool False\<rparr>, \<lparr>delivery = JNull, invoice = JStr ''x''\<rparr>]
     = validateSelectedAddresses
       [\<lparr>delivery = JNull, invoice = JStr ''x''\<rparr>, \<lparr>delivery = JBool True, invoice = JBool False\<rparr>]
   \<and> validateSelectedAddresses
       [\<lparr>delivery = JBool True, invoice = JBool False\<rparr>, \<lparr>delivery = JNull, invoice = JStr ''x''\<rparr>]"
proof -
  have p: "mset [\<lparr>delivery = JBool True, invoice = JBool False\<rparr>, \<lparr>delivery = JNull, invoice = JStr ''x''\<rparr>]
     = mset [\<lparr>delivery = JNull, invoice = JStr ''x''\<rparr>, \<lparr>delivery = JBool True, invoice = JBool False\<rparr>]"
    by (simp add: add_mset_commute)
  have v: "validateSelectedAddresses
       [\<lparr>delivery = JBool True, invoice = JBool False\<rparr>, \<lparr>delivery = JNull, invoice = JStr ''x''\<rparr>]"
    by (simp add: validateSelectedAddresses_def vsa_run_def for_in_keys_def vsa_body_def upt_rec)
  show ?thesis
    using p v validateSelectedAddresses_order_independent [OF p] by simp
qed

subsection \<open>The registered handlers\<close>

lemmas registry_defs = page_registry_def initListeners_def listenForCartEdit_def
  onCartLoaded_def onCartAddressesChanged_def onDeliveryOptionChanged_def onFreeShippingChanged_def
  onCartLanguageChanged_def onCartCurrencyChanged_def addCartRuleToCart_def removeCartRuleFromCart_bind_def
  container_on_def EventEmitter_on_def

lemma delegated_page:
  "delegated page_registry =
     [(Input, customerSearchInput, L_initCustomerSearch),
      (Click, chooseCustomerBtn, L_initCustomerSelect),
      (Click, useCartBtn, L_initCartSelect),
      (Click, useOrderBtn, L_initDuplicateOrderCart),
      (Input, productSearch, L_initProductSearch),
      (Input, cartRuleSearchInput, L_initCartRuleSearch),
      (Blur, cartRuleSearchInput, L_stopSearching),
      (Mousedown, foundCartRuleListItem, L_addCartRuleToCart_mousedown),
      (Click, foundCartRuleListItem, L_addCartRuleToCart_click),
      (Click, cartRuleDeleteBtn, L_removeCartRuleFromCart),
      (Change, deliveryOptionSelect, L_changeDeliveryOption),
      (Change, freeShippingSwitch, L_setFreeShipping),
      (Click, addToCartButton, L_addProductToCart),
      (Change, cartCurrencySelect, L_changeCartCurrency),
      (Change, cartLanguageSelect, L_changeCartLanguage),
      (Click, sendProcessOrderEmailBtn, L_sendProcessOrderEmail),
      (Change, listedProductUnitPriceInput, L_initProductChangePrice),
      (Change, listedProductQtyInput, L_initProductChangeQty),
      (Change, addressSelect, L_changeCartAddresses),
      (Click, productRemoveBtn, L_initProductRemoveFromCart)]"
  by (simp add: registry_defs Let_def)

lemma input_listeners:
  "listeners_for Input customerSearchInput = [L_initCustomerSearch]"
  "listeners_for Input productSearch = [L_initProductSearch]"
  "listeners_for Input cartRuleSearchInput = [L_initCartRuleSearch]"
  by (simp_all add: listeners_for_def delegated_page)

lemma subscribed_page:
  "subscribed page_registry =
     [(cartAddressesChanged, S_onCartAddressesChanged),
      (cartDeliveryOptionChanged, S_onDeliveryOptionChanged),
      (cartFreeShippingSet, S_onFreeShippingChanged),
      (cartCurrencyChanged, S_onCartCurrencyChanged_success),
      (cartCurrencyChangeFailed, S_onCartCurrencyChanged_failure),
      (cartLanguageChanged, S_onCartLanguageChanged),
      (cartLoaded, S_onCartLoaded)]"
  by (simp add: registry_defs Let_def)

lemma subscribers_for_simps:
  "subscribers_for cartLoaded = [S_onCartLoaded]"
  "subscribers_for cartAddressesChanged = [S_onCartAddressesChanged]"
  "subscribers_for cartDeliveryOptionChanged = [S_onDeliveryOptionChanged]"
  "subscribers_for cartFreeShippingSet = [S_onFreeShippingChanged]"
  "subscribers_for cartCurrencyChanged = [S_onCartCurrencyChanged_success]"
  "subscribers_for cartCurrencyChangeFailed = [S_onCartCurrencyChanged_failure]"
  "subscribers_for cartLanguageChanged = [S_onCartLanguageChanged]"
  by (simp_all add: subscribers_for_def subscribed_page)

subsection \<open>Debounce: one pending timer, and the last keystroke wins\<close>

lemma advance_idle:
  assumes "\<forall>tm\<in>set (timers w). t < due tm"
  shows "advance_to t w = w\<lparr>clock := max (clock w) t\<rparr>"
proof -
  have "filter (\<lambda>tm. due tm \<le> t) (timers w) = []"
    using assms by (auto simp: filter_empty_conv)
  moreover have "filter (\<lambda>tm. \<not> due tm \<le> t) (timers w) = timers w"
    using assms by (auto simp: filter_id_conv)
  ultimately show ?thesis by (simp add: advance_to_def)
qed

lemma clear_named:
  assumes "\<forall>tm\<in>set (timers w). page w this_timeoutId = JNum (int (timer_id tm))"
  shows "timers (clearTimeout (page w this_timeoutId) w) = []"
proof (cases "timers w")
  case Nil
  then show ?thesis by (simp add: clearTimeout_def split: jsval.splits)
next
  case (Cons tm tms)
  with assms have h: "page w this_timeoutId = JNum (int (timer_id tm))" by simp
  from assms have "\<forall>x\<in>set (timers w). int (timer_id x) = int (timer_id tm)"
    using h by auto
  then show ?thesis by (simp add: clearTimeout_def h filter_empty_conv)
qed

lemma clear_frame:
  "clearTimeout h w = w\<lparr>timers := timers (clearTimeout h w)\<rparr>"
  by (simp add: clearTimeout_def split: jsval.splits)

lemma keystroke_step:
  assumes s: "s \<in> set debounced" and t: "clock w \<le> t"
    and armed: "\<forall>tm\<in>set (timers w). page w this_timeoutId = JNum (int (timer_id tm)) \<and> t < due tm"
  shows "occur (t, Typed s v) w =
     w\<lparr>page := (page w)(this_timeoutId := JNum (int (nextTimer w))),
       assigned := assigned w @ [this_timeoutId],
       dom_value := (dom_value w)(s := v),
       clock := t,
       nextTimer := Suc (nextTimer w),
       timers := [\<lparr>timer_id = nextTimer w, due = t + 300, fires = search_closure s v\<rparr>]\<rparr>"
proof -
  let ?w1 = "(w\<lparr>clock := t\<rparr>)\<lparr>dom_value := (dom_value w)(s := v)\<rparr>"
  have adv: "advance_to t w = w\<lparr>clock := t\<rparr>"
    using armed t by (simp add: advance_idle max_def)
  have named: "\<forall>tm\<in>set (timers ?w1). page ?w1 this_timeoutId = JNum (int (timer_id tm))"
    using armed by simp
  have cl: "clearTimeout (page ?w1 this_timeoutId) ?w1 = ?w1\<lparr>timers := []\<rparr>"
    using clear_named [OF named] clear_frame [of "page ?w1 this_timeoutId" ?w1] by simp
  from s consider "s = customerSearchInput" | "s = productSearch" | "s = cartRuleSearchInput"
    by (auto simp: debounced_def)
  then show ?thesis
  proof cases
    case 1
    then show ?thesis
      using cl by (simp add: occur_def adv trigger_def input_listeners initCustomerSearch_def
          setTimeout_def assign_def Let_def)
  next
    case 2
    then show ?thesis
      using cl by (simp add: occur_def adv trigger_def input_listeners initProductSearch_def
          setTimeout_def assign_def Let_def jq_val_def)
  next
    case 3
    then show ?thesis
      using cl by (simp add: occur_def adv trigger_def input_listeners initCartRuleSearch_def
          setTimeout_def assign_def Let_def jq_val_def)
  qed
qed


lemma first_keystroke:
  assumes "s \<in> set debounced" "clock w \<le> t" "timers w = []"
  shows "pending_search (occur (t, Typed s v) w) t s v \<and> same_outside w (occur (t, Typed s v) w)"
  using assms by (simp add: keystroke_step pending_search_def same_outside_def)

lemma next_keystroke:
  assumes p: "pending_search w t s v" and s': "s' \<in> set debounced" and t': "t \<le> t'" "t' < t + 300"
  shows "pending_search (occur (t', Typed s' v') w) t' s' v' \<and> same_outside w (occur (t', Typed s' v') w)"
proof -
  from p obtain i where tm: "timers w = [\<lparr>timer_id = i, due = t + 300, fires = search_closure s v\<rparr>]"
    and h: "page w this_timeoutId = JNum (int i)" and c: "clock w = t"
    by (auto simp: pending_search_def)
  have armed: "\<forall>tm\<in>set (timers w). page w this_timeoutId = JNum (int (timer_id tm)) \<and> t' < due tm"
    using tm h t' by simp
  have "clock w \<le> t'" using c t' by simp
  from keystroke_step [OF s' this armed, of v'] show ?thesis
    using s' by (simp add: pending_search_def same_outside_def)
qed

lemma same_outside_trans:
  "same_outside a b \<Longrightarrow> same_outside b c \<Longrightarrow> same_outside a c"
  by (simp add: same_outside_def)

lemma run_keystrokes:
  assumes "pending_search w t s v" "within_window t ks"
  shows "(case last ((t, s, v) # ks) of (tn, sn, vn) \<Rightarrow>
            pending_search (run_script (keystrokes ks) w) tn sn vn)
         \<and> same_outside w (run_script (keystrokes ks) w)"
  using assms
proof (induction ks arbitrary: w t s v)
  case Nil
  then show ?case by (simp add: run_script_def keystrokes_def same_outside_def)
next
  case (Cons k ks)
  obtain t' s' v' where k: "k = (t', s', v')" by (cases k) auto
  from Cons.prems k have w: "t \<le> t'" "t' < t + 300" "s' \<in> set debounced" "within_window t' ks"
    by simp_all
  let ?w' = "occur (t', Typed s' v') w"
  from next_keystroke [OF Cons.prems(1) w(3) w(1) w(2), of v']
  have p': "pending_search ?w' t' s' v'" and o': "same_outside w ?w'" by simp_all
  from Cons.IH [OF p' w(4)]
  have "(case last ((t', s', v') # ks) of (tn, sn, vn) \<Rightarrow>
            pending_search (run_script (keystrokes ks) ?w') tn sn vn)"
    and "same_outside ?w' (run_script (keystrokes ks) ?w')" by simp_all
  moreover have "run_script (keystrokes (k # ks)) w = run_script (keystrokes ks) ?w'"
    by (simp add: run_script_def keystrokes_def k)
  ultimately show ?case using o' k by (auto intro: same_outside_trans)
qed

lemma search_closure_runs:
  assumes "s \<in> set debounced" "dom_value w s = v"
  shows "trace (run_callback (search_closure s v) w) =
           trace w @ [(clock w, Call (page w (search_manager s)) ''search'' [V v])]"
  using assms by (auto simp: debounced_def call_def jq_val_def)

lemma pending_fires:
  assumes "pending_search w t s v"
  shows "trace (advance_to T w) =
     trace w @ (if T < t + 300 then [] else [(t + 300, Call (page w (search_manager s)) ''search'' [V v])])"
proof -
  from assms obtain i where tm: "timers w = [\<lparr>timer_id = i, due = t + 300, fires = search_closure s v\<rparr>]"
    and c: "clock w = t" and d: "dom_value w s = v" and s: "s \<in> set debounced"
    by (auto simp: pending_search_def)
  show ?thesis
  proof (cases "T < t + 300")
    case True
    then have "advance_to T w = w\<lparr>clock := max (clock w) T\<rparr>"
      using tm by (simp add: advance_idle)
    with True show ?thesis by simp
  next
    case False
    let ?w = "w\<lparr>timers := [], clock := t + 300\<rparr>"
    have "trace (run_callback (search_closure s v) ?w) =
           trace ?w @ [(clock ?w, Call (page ?w (search_manager s)) ''search'' [V v])]"
      using s d by (intro search_closure_runs) simp_all
    with False show ?thesis
      using tm c by (simp add: advance_to_def fire_def max_def Let_def)
  qed
qed

lemma debounce_last_wins:
  assumes "timers w = []" "clock w \<le> t" "s \<in> set debounced" "within_window t ks"
  shows "trace (advance_to T (run_script (keystrokes ((t, s, v) # ks)) w)) =
     trace w @ (case last ((t, s, v) # ks) of (tn, sn, vn) \<Rightarrow>
        if T < tn + 300 then []
        else [(tn + 300, Call (page w (search_manager sn)) ''search'' [V vn])])"
proof -
  let ?w1 = "occur (t, Typed s v) w"
  let ?wn = "run_script (keystrokes ks) ?w1"
  obtain tn sn vn where l: "last ((t, s, v) # ks) = (tn, sn, vn)"
    by (cases "last ((t, s, v) # ks)") auto
  from first_keystroke [OF assms(3) assms(2) assms(1), of v]
  have p1: "pending_search ?w1 t s v" and o1: "same_outside w ?w1" by simp_all
  from run_keystrokes [OF p1 assms(4)] l
  have pn: "pending_search ?wn tn sn vn" and on: "same_outside ?w1 ?wn" by simp_all
  have o: "same_outside w ?wn" using o1 on by (rule same_outside_trans)
  have sn: "sn \<in> set debounced" using pn by (simp add: pending_search_def)
  then have m: "search_manager sn \<noteq> this_timeoutId" by (auto simp: debounced_def)
  have r: "run_script (keystrokes ((t, s, v) # ks)) w = ?wn"
    by (simp add: run_script_def keystrokes_def)
  from pending_fires [OF pn, of T] o m
  have f: "trace (advance_to T ?wn) =
     trace w @ (if T < tn + 300 then []
                else [(tn + 300, Call (page w (search_manager sn)) ''search'' [V vn])])"
    by (simp add: same_outside_def)
  show ?thesis unfolding r l using f by simp
qed


lemma clearTimeout_timers:
  "timers (clearTimeout h w) = filter (\<lambda>tm. JNum (int (timer_id tm)) \<noteq> h) (timers w)"
  by (cases h) (simp_all add: clearTimeout_def)

lemma keystroke_any_world:
  assumes "s \<in> set debounced"
  shows "timers (step (Typed s v) w) =
           filter (\<lambda>tm. JNum (int (timer_id tm)) \<noteq> page w this_timeoutId) (timers w)
             @ [\<lparr>timer_id = nextTimer w, due = clock w + 300, fires = search_closure s v\<rparr>]
       \<and> page (step (Typed s v) w) this_timeoutId = JNum (int (nextTimer w))"
proof -
  let ?w = "w\<lparr>dom_value := (dom_value w)(s := v)\<rparr>"
  have t: "timers (clearTimeout (page ?w this_timeoutId) ?w) =
      filter (\<lambda>tm. JNum (int (timer_id tm)) \<noteq> page w this_timeoutId) (timers w)"
    by (simp add: clearTimeout_timers)
  have f: "clearTimeout (page ?w this_timeoutId) ?w =
      ?w\<lparr>timers := timers (clearTimeout (page ?w this_timeoutId) ?w)\<rparr>"
    by (rule clear_frame)
  from assms consider "s = customerSearchInput" | "s = productSearch" | "s = cartRuleSearchInput"
    by (auto simp: debounced_def)
  then show ?thesis
  proof cases
    case 1
    then show ?thesis
      using t f by (simp add: trigger_def input_listeners initCustomerSearch_def
          setTimeout_def assign_def Let_def)
  next
    case 2
    then show ?thesis
      using t f by (simp add: trigger_def input_listeners initProductSearch_def
          setTimeout_def assign_def Let_def jq_val_def)
  next
    case 3
    then show ?thesis
      using t f by (simp add: trigger_def input_listeners initCartRuleSearch_def
          setTimeout_def assign_def Let_def jq_val_def)
  qed
qed


subsection \<open>The page just constructed\<close>

lemmas boot_defs = boot_def blank_def constructor_def assign_new_def assign_def Let_def

lemma boot_quiet:
  "timers (boot form cd cr) = []" "clock (boot form cd cr) = 0" "trace (boot form cd cr) = []"
  by (simp_all add: boot_defs)

lemma boot_page:
  "page (boot form cd cr) this_customerManager = JRef 2"
  "page (boot form cd cr) this_productManager = JRef 9"
  "page (boot form cd cr) this_cartRuleManager = JRef 8"
  by (simp_all add: boot_defs)

subsection \<open>Debounce: the claims\<close>

text \<open>
  Claim C3. The customer, product and cart rule search inputs share one timer handle. In
  any world, a keystroke on any of the three drops the pending timer that
  \<^verbatim>\<open>this.timeoutId\<close> names, whichever input set it, queues its own timer of 300 and
  stores that timer's id in \<^verbatim>\<open>this.timeoutId\<close>. So in a world with no timer pending,
  after a keystroke on any of the three at t1 and a keystroke on any of the three (the
  same or another) at t2 less than 300 later, the only pending timer is the second
  keystroke's; the first keystroke's timer (its id was the next timer id) is cancelled.
  By any time T the script has dispatched nothing for the first keystroke, and exactly
  one search, for the second keystroke's input and value, at t2 + 300 and not before.
  With a product search keystroke at 0 and a cart rule search keystroke at 50, that is
  one cart rule dispatch at 350 and no product dispatch.
\<close>

theorem shared_timer_cross_cancellation:
  assumes "s1 \<in> set debounced" "s2 \<in> set debounced"
    and "timers w = []" "clock w \<le> t1" "t1 \<le> t2" "t2 < t1 + 300"
  shows "timers (step (Typed s2 v2) w') =
           filter (\<lambda>tm. JNum (int (timer_id tm)) \<noteq> page w' this_timeoutId) (timers w')
             @ [\<lparr>timer_id = nextTimer w', due = clock w' + 300, fires = search_closure s2 v2\<rparr>]
       \<and> page (step (Typed s2 v2) w') this_timeoutId = JNum (int (nextTimer w'))
       \<and> timers (run_script (keystrokes [(t1, s1, v1), (t2, s2, v2)]) w) =
           [\<lparr>timer_id = Suc (nextTimer w), due = t2 + 300, fires = search_closure s2 v2\<rparr>]
       \<and> page (run_script (keystrokes [(t1, s1, v1), (t2, s2, v2)]) w) this_timeoutId =
           JNum (int (Suc (nextTimer w)))
       \<and> trace (advance_to T (run_script (keystrokes [(t1, s1, v1), (t2, s2, v2)]) w)) =
           trace w @ (if T < t2 + 300 then []
                      else [(t2 + 300, Call (page w (search_manager s2)) ''search'' [V v2])])"
proof -
  let ?w1 = "occur (t1, Typed s1 v1) w"
  have armed0: "\<forall>tm\<in>set (timers w). page w this_timeoutId = JNum (int (timer_id tm)) \<and> t1 < due tm"
    using assms(3) by simp
  note k1 = keystroke_step [OF assms(1) assms(4) armed0, of v1]
  have c1: "clock ?w1 \<le> t2" using assms(5) by (simp add: k1)
  have armed1: "\<forall>tm\<in>set (timers ?w1). page ?w1 this_timeoutId = JNum (int (timer_id tm)) \<and> t2 < due tm"
    using assms(6) by (simp add: k1)
  note k2 = keystroke_step [OF assms(2) c1 armed1, of v2]
  have r: "run_script (keystrokes [(t1, s1, v1), (t2, s2, v2)]) w = occur (t2, Typed s2 v2) ?w1"
    by (simp add: run_script_def keystrokes_def)
  have w: "within_window t1 [(t2, s2, v2)]" using assms by simp
  from debounce_last_wins [where v = v1 and T = T, OF assms(3) assms(4) assms(1) w]
  have "trace (advance_to T (run_script (keystrokes [(t1, s1, v1), (t2, s2, v2)]) w)) =
           trace w @ (if T < t2 + 300 then []
                      else [(t2 + 300, Call (page w (search_manager s2)) ''search'' [V v2])])"
    by simp
  moreover have "timers (occur (t2, Typed s2 v2) ?w1) =
           [\<lparr>timer_id = Suc (nextTimer w), due = t2 + 300, fires = search_closure s2 v2\<rparr>]"
    by (subst k2) (simp add: k1)
  moreover have "page (occur (t2, Typed s2 v2) ?w1) this_timeoutId = JNum (int (Suc (nextTimer w)))"
    by (subst k2) (simp add: k1)
  moreover note keystroke_any_world [OF assms(2), of v2 w']
  ultimately show ?thesis by (simp only: r)
qed

text \<open>
  The scenario of claim C3 on a page just constructed: a product search keystroke at 0
  and a cart rule search keystroke at 50. Nothing is dispatched by 349, and by 350 the
  one dispatch is the cart rule search.
\<close>

theorem shared_timer_cross_cancellation_witness:
  "trace (advance_to 350 (run_script
      (keystrokes [(0, productSearch, JStr ''shirt''), (50, cartRuleSearchInput, JStr ''SALE'')])
      (boot (\<lambda>s. JStr []) (\<lambda>e d. d) (\<lambda>e. JUndefined))))
     = [(350, Call (JRef 8) ''search'' [V (JStr ''SALE'')])]
   \<and> trace (advance_to 349 (run_script
      (keystrokes [(0, productSearch, JStr ''shirt''), (50, cartRuleSearchInput, JStr ''SALE'')])
      (boot (\<lambda>s. JStr []) (\<lambda>e d. d) (\<lambda>e. JUndefined))))
     = []"
proof -
  let ?b = "boot (\<lambda>s. JStr []) (\<lambda>e d. d) (\<lambda>e. JUndefined)"
  have h: "productSearch \<in> set debounced" "cartRuleSearchInput \<in> set debounced"
    "timers ?b = []" "clock ?b \<le> 0" "(0::nat) \<le> 50" "(50::nat) < 0 + 300"
    by (simp_all add: debounced_def boot_quiet)
  from shared_timer_cross_cancellation
         [where ?v1.0 = "JStr ''shirt''" and ?v2.0 = "JStr ''SALE''" and T = 350, OF h]
    shared_timer_cross_cancellation
         [where ?v1.0 = "JStr ''shirt''" and ?v2.0 = "JStr ''SALE''" and T = 349, OF h]
  show ?thesis by (simp add: boot_quiet boot_page)
qed

lemma last_same_input:
  "last ((t, s, v) # map (\<lambda>(t', v'). (t', s, v')) tvs) =
     (case last ((t, v) # tvs) of (tn, vn) \<Rightarrow> (tn, s, vn))"
  by (induction tvs arbitrary: t v) (auto split: prod.splits)

text \<open>
  Claim C4. Keystrokes on one debounced input, each less than 300 after the one before
  it, starting in a world with no timer pending: by any time T exactly one search has
  been dispatched if T has reached the last keystroke's time plus 300, and none before;
  the dispatch happens at that time and carries the value of the last keystroke. With
  keystrokes at 0, 100 and 250 this is one dispatch, at 550, with the value typed at 250:
  only the most recent event within the delay window triggers a downstream call. (The
  customer search closure reads its input when it fires; after such a run the input
  still holds the value of the last keystroke.)
\<close>

theorem debounce_same_input:
  assumes "s \<in> set debounced" "timers w = []" "clock w \<le> t"
    and "within_window t (map (\<lambda>(t', v'). (t', s, v')) tvs)"
  shows "trace (advance_to T (run_script
             (keystrokes ((t, s, v) # map (\<lambda>(t', v'). (t', s, v')) tvs)) w)) =
     trace w @ (case last ((t, v) # tvs) of (tn, vn) \<Rightarrow>
        if T < tn + 300 then []
        else [(tn + 300, Call (page w (search_manager s)) ''search'' [V vn])])"
proof -
  obtain tn vn where l: "last ((t, v) # tvs) = (tn, vn)"
    by (cases "last ((t, v) # tvs)") auto
  have l': "last ((t, s, v) # map (\<lambda>(t', v'). (t', s, v')) tvs) = (tn, s, vn)"
    unfolding last_same_input l by simp
  from debounce_last_wins [where v = v and T = T, OF assms(2) assms(3) assms(1) assms(4)]
  show ?thesis unfolding l l' by simp
qed

text \<open>
  The scenario of claim C4 on a page just constructed: customer search keystrokes at 0,
  100 and 250. Nothing is dispatched by 549, and by 550 the one dispatch carries the
  value typed at 250.
\<close>

theorem debounce_same_input_witness:
  "trace (advance_to 550 (run_script
      (keystrokes [(0, customerSearchInput, JStr ''j''), (100, customerSearchInput, JStr ''jo''),
                   (250, customerSearchInput, JStr ''joe'')])
      (boot (\<lambda>s. JStr []) (\<lambda>e d. d) (\<lambda>e. JUndefined))))
     = [(550, Call (JRef 2) ''search'' [V (JStr ''joe'')])]
   \<and> trace (advance_to 549 (run_script
      (keystrokes [(0, customerSearchInput, JStr ''j''), (100, customerSearchInput, JStr ''jo''),
                   (250, customerSearchInput, JStr ''joe'')])
      (boot (\<lambda>s. JStr []) (\<lambda>e d. d) (\<lambda>e. JUndefined))))
     = []"
proof -
  let ?b = "boot (\<lambda>s. JStr []) (\<lambda>e d. d) (\<lambda>e. JUndefined)"
  have h: "customerSearchInput \<in> set debounced" "timers ?b = []" "clock ?b \<le> 0"
    "within_window 0 (map (\<lambda>(t', v'). (t', customerSearchInput, v')) [(100, JStr ''jo''), (250, JStr ''joe'')])"
    by (simp_all add: debounced_def boot_quiet)
  from debounce_same_input [where v = "JStr ''j''" and T = 550, OF h]
    debounce_same_input [where v = "JStr ''j''" and T = 549, OF h]
  show ?thesis by (simp add: boot_quiet boot_page)
qed


subsection \<open>The bus subscribers: what each delivery does\<close>

lemmas effect_defs = call_def jq_set_val_def jq_call_def jq_val_def preventDefault_def
  uncaught_def stopSearching_def assign_def
  preselectCartCurrency_def preselectCartLanguage_def

lemmas subscriber_defs = onCartLoaded_handler_def renderCartInfo_def changeCartAddresses_def
  onCartAddressesChanged_handler_def onDeliveryOptionChanged_handler_def
  onFreeShippingChanged_handler_def onCartLanguageChanged_handler_def
  onCartCurrencyChanged_success_def onCartCurrencyChanged_failure_def

lemmas listener_defs = initCustomerSearch_def initCustomerSelect_def initCartSelect_def
  initDuplicateOrderCart_def initCartRuleSearch_def addCartRuleToCart_mousedown_def
  addCartRuleToCart_click_def removeCartRuleFromCart_def initProductSearch_def
  initProductRemoveFromCart_def initProductChangePrice_def initProductChangeQty_def
  changeCartAddresses_def setTimeout_def

lemma publish_one:
  "subscribers_for name = [s] \<Longrightarrow>
   publish name p w =
     run_subscriber s (nextRef w) (Some p)
       (w\<lparr>heap := (heap w)(nextRef w := Some p), nextRef := Suc (nextRef w)\<rparr>)"
  by (simp add: publish_def emit_def)

text \<open>
  Claim C5. When a cartAddressesChanged event is published with a cart info, the event
  has one subscriber of the page, and what is recorded during the delivery is exactly
  three calls, in this order: the addresses renderer with the payload's addresses, the
  shipping renderer with the payload's shipping and whether its products list is empty,
  and the summary renderer with the payload object itself (the reference delivered, which
  still holds the cart info). Each is called once and no other renderer is called.
\<close>

theorem cartAddressesChanged_renders_each_once:
  "subscribers_for cartAddressesChanged = [S_onCartAddressesChanged]
   \<and> recorded_by (publish cartAddressesChanged (CartInfo c)) w =
       [(clock w, Call (page w this_addressesRenderer) ''render'' [Arr_addresses (addresses c)]),
        (clock w, Call (page w this_shippingRenderer) ''render''
                    [V (shipping c), V (JBool (length (products c) = 0))]),
        (clock w, Call (page w this_summaryRenderer) ''render'' [V (JRef (nextRef w))])]
   \<and> heap (publish cartAddressesChanged (CartInfo c) w) (nextRef w) = Some (CartInfo c)"
  by (simp add: recorded_by_def publish_one subscribers_for_simps subscriber_defs effect_defs Let_def)

text \<open>
  Claim C6, as stated, fails in two places. No event name has two subscriptions: the
  success handler is the only subscriber of cartCurrencyChanged and the failure handler
  the only subscriber of cartCurrencyChangeFailed. And a failure response with no JSON
  body is not projected into an alert: on a page just constructed, publishing
  cartCurrencyChangeFailed with such a response records an uncaught TypeError and no
  renderCartBlockErrorAlert call.
\<close>

theorem currency_change_two_subscriptions_counterexample:
  "subscribers_for cartCurrencyChanged = [S_onCartCurrencyChanged_success]
   \<and> subscribers_for cartCurrencyChangeFailed = [S_onCartCurrencyChanged_failure]
   \<and> length (subscribers_for cartCurrencyChanged) \<noteq> 2
   \<and> length (subscribers_for cartCurrencyChangeFailed) \<noteq> 2
   \<and> recorded_by (publish cartCurrencyChangeFailed (Response \<lparr>responseJSON = None\<rparr>))
        (boot (\<lambda>s. JStr []) (\<lambda>e d. d) (\<lambda>e. JUndefined))
      = [(0, Uncaught ''TypeError'')]"
  by (simp add: subscribers_for_simps recorded_by_def publish_one
      onCartCurrencyChanged_failure_def uncaught_def boot_defs)

text \<open>
  Claim C6, amended. The currency change has two independent subscriptions, which
  \<^verbatim>\<open>_onCartCurrencyChanged\<close> registers separately under two event names: the success
  handler under cartCurrencyChanged and the failure handler under
  cartCurrencyChangeFailed, each the only subscriber of its name. A
  cartCurrencyChangeFailed event carrying a response with a JSON body records exactly one
  effect, the product renderer's renderCartBlockErrorAlert with
  \<^verbatim>\<open>response.responseJSON.message\<close>; the failure handler assigns nothing and sets no
  timer, so there is no other recovery and no retry. A cartCurrencyChanged event records
  the product renderer's cleanCartBlockAlerts and then the preselection of the payload's
  currency id, \<^verbatim>\<open>$(cartCurrencySelect).val(currencyId)\<close>.
\<close>

theorem currency_change_success_and_failure:
  "subscribed (onCartCurrencyChanged reg) =
     subscribed reg @ [(cartCurrencyChanged, S_onCartCurrencyChanged_success),
                       (cartCurrencyChangeFailed, S_onCartCurrencyChanged_failure)]
   \<and> subscribers_for cartCurrencyChanged = [S_onCartCurrencyChanged_success]
   \<and> subscribers_for cartCurrencyChangeFailed = [S_onCartCurrencyChanged_failure]
   \<and> recorded_by (publish cartCurrencyChangeFailed (Response \<lparr>responseJSON = Some body\<rparr>)) w =
       [(clock w, Call (page w this_productRenderer) ''renderCartBlockErrorAlert''
                    [V (message body)])]
   \<and> assigned_by (publish cartCurrencyChangeFailed (Response r)) w = []
   \<and> timers (publish cartCurrencyChangeFailed (Response r) w) = timers w
   \<and> recorded_by (publish cartCurrencyChanged (CartInfo c)) w =
       [(clock w, Call (page w this_productRenderer) ''cleanCartBlockAlerts'' []),
        (clock w, Jq cartCurrencySelect ''val'' [V (currencyId c)])]"
  by (simp add: recorded_by_def assigned_by_def publish_one subscribers_for_simps subscriber_defs
      effect_defs Let_def onCartCurrencyChanged_def EventEmitter_on_def split: option.splits)

lemma run_subscriber_heap: "heap (run_subscriber s ref p w) = heap w"
proof (cases p)
  case None
  then show ?thesis by (cases s) simp_all
next
  case (Some q)
  then show ?thesis
    by (cases s; cases q) (simp_all add: subscriber_defs effect_defs Let_def split: option.splits)
qed

lemma emit_heap: "heap (emit name ref w) = heap w"
  by (cases name) (simp_all add: emit_def subscribers_for_simps run_subscriber_heap)

text \<open>
  Claim C7. For every subscriber of the page (the handlers of cartLoaded,
  cartAddressesChanged, cartDeliveryOptionChanged, cartFreeShippingSet,
  cartCurrencyChanged, cartCurrencyChangeFailed and cartLanguageChanged), every reference
  delivered and every world: the heap of payload objects is the same after the handler as
  before, so the payload it was handed is; the same holds for the delivery of any event to
  all its subscribers; and a payload that is published holds the published value when its
  handlers have run. The handlers read the payload and assign to the page only. What a
  collaborator does with the reference it is handed is not the controller's code.
\<close>

theorem handlers_never_write_payload:
  "heap (run_subscriber s ref (heap w ref) w) = heap w
   \<and> heap (emit name ref w) = heap w
   \<and> heap (publish name p w) (nextRef w) = Some p"
  by (simp add: run_subscriber_heap emit_heap publish_def)

lemma listener_frame:
  "map (page (run_listener l e w)) collaborator_fields = map (page w) collaborator_fields
   \<and> set (assigned_by (run_listener l e) w) \<subseteq> {this_cartId, this_customerId, this_timeoutId}"
  by (cases l)
     (simp_all add: collaborator_fields_def assigned_by_def listener_defs effect_defs Let_def
        clearTimeout_def split: jsval.splits)

lemma subscriber_frame:
  "map (page (run_subscriber s ref p w)) collaborator_fields = map (page w) collaborator_fields
   \<and> set (assigned_by (run_subscriber s ref p) w) \<subseteq> {this_cartId, this_customerId, this_timeoutId}"
proof (cases p)
  case None
  then show ?thesis by (cases s) (simp_all add: assigned_by_def)
next
  case (Some q)
  then show ?thesis
    by (cases s; cases q)
       (simp_all add: collaborator_fields_def assigned_by_def subscriber_defs effect_defs Let_def
          split: option.splits)
qed

lemma callback_frame:
  "map (page (run_callback cb w)) collaborator_fields = map (page w) collaborator_fields
   \<and> set (assigned_by (run_callback cb) w) \<subseteq> {this_cartId, this_customerId, this_timeoutId}"
  by (cases cb) (simp_all add: collaborator_fields_def assigned_by_def effect_defs)

text \<open>
  Claim C8. Every handler of the page (a container listener on any event, a bus
  subscriber on any reference, a timer closure) leaves the container and the twelve
  collaborator properties of the page as they were, and the assignments it executes are
  to cartId, customerId or timeoutId only. The constructor assigns cartId, customerId and
  then each of those thirteen properties, each exactly once (the list has no repetition).
\<close>

theorem handlers_assign_three_fields_only:
  "map (page (run_handler h w)) collaborator_fields = map (page w) collaborator_fields
   \<and> set (assigned_by (run_handler h) w) \<subseteq> {this_cartId, this_customerId, this_timeoutId}
   \<and> assigned_by constructor w = this_cartId # this_customerId # collaborator_fields
   \<and> distinct collaborator_fields"
proof -
  have "map (page (run_handler h w)) collaborator_fields = map (page w) collaborator_fields
   \<and> set (assigned_by (run_handler h) w) \<subseteq> {this_cartId, this_customerId, this_timeoutId}"
  proof (cases h)
    case (Listener l e)
    with listener_frame [of l e w] show ?thesis by (simp add: assigned_by_def)
  next
    case (Subscriber s ref)
    with subscriber_frame [of s ref "heap w ref" w] show ?thesis by (simp add: assigned_by_def)
  next
    case (Timeout cb)
    with callback_frame [of cb w] show ?thesis by (simp add: assigned_by_def)
  qed
  moreover have "assigned_by constructor w = this_cartId # this_customerId # collaborator_fields"
    by (simp add: assigned_by_def constructor_def assign_new_def assign_def Let_def collaborator_fields_def)
  moreover have "distinct collaborator_fields"
    by (simp add: collaborator_fields_def)
  ultimately show ?thesis by simp
qed

text \<open>
  Claim C10. On a cartLoaded event with a cart info: the handler's only assignment sets
  the page's cartId to the payload's cartId, and the changeCartAddresses calls recorded
  during the delivery are exactly one if the payload's addresses list is non-empty and
  validateSelectedAddresses of it is false, and none if the list is empty or validates.
  The one call is on the cart editor, with the new cartId and with the delivery and
  invoice address ids read from the two address selects as they are once the cart info
  has been rendered.
\<close>

theorem cartLoaded_changes_addresses_iff:
  "page (publish cartLoaded (CartInfo c) w) this_cartId = cartId c
   \<and> assigned_by (publish cartLoaded (CartInfo c)) w = [this_cartId]
   \<and> calls_of ''changeCartAddresses'' (recorded_by (publish cartLoaded (CartInfo c)) w) =
       (if addresses c \<noteq> [] \<and> \<not> validateSelectedAddresses (addresses c)
        then [(clock w, Call (page w this_cartEditor) ''changeCartAddresses''
                 [V (cartId c),
                  Obj [(''deliveryAddressId'', dom_value (renderCartInfo (nextRef w) c w) deliveryAddressSelect),
                       (''invoiceAddressId'', dom_value (renderCartInfo (nextRef w) c w) invoiceAddressSelect)]])]
        else [])"
  by (simp add: recorded_by_def assigned_by_def calls_of_def publish_one subscribers_for_simps
      subscriber_defs effect_defs Let_def)


end
